theory Spec2Isabelle
  imports Main
begin

section \<open>HTTP error classes and faults\<close>

text \<open>
  The classes of \<open>webob.exc\<close> that \<open>reddwarf/common/wsgi.py\<close> names, each with the
  class name (\<open>__name__\<close>) and the status code webob gives it.
\<close>

datatype http_class =
    HTTPBadRequest
  | HTTPUnauthorized
  | HTTPForbidden
  | HTTPNotFound
  | HTTPMethodNotAllowed
  | HTTPNotAcceptable
  | HTTPConflict
  | HTTPRequestEntityTooLarge
  | HTTPUnsupportedMediaType
  | HTTPUnprocessableEntity
  | HTTPInternalServerError
  | HTTPNotImplemented
  | HTTPServiceUnavailable
  | HTTPServerError

fun class_name :: "http_class \<Rightarrow> string" where
  "class_name HTTPBadRequest = ''HTTPBadRequest''"
| "class_name HTTPUnauthorized = ''HTTPUnauthorized''"
| "class_name HTTPForbidden = ''HTTPForbidden''"
| "class_name HTTPNotFound = ''HTTPNotFound''"
| "class_name HTTPMethodNotAllowed = ''HTTPMethodNotAllowed''"
| "class_name HTTPNotAcceptable = ''HTTPNotAcceptable''"
| "class_name HTTPConflict = ''HTTPConflict''"
| "class_name HTTPRequestEntityTooLarge = ''HTTPRequestEntityTooLarge''"
| "class_name HTTPUnsupportedMediaType = ''HTTPUnsupportedMediaType''"
| "class_name HTTPUnprocessableEntity = ''HTTPUnprocessableEntity''"
| "class_name HTTPInternalServerError = ''HTTPInternalServerError''"
| "class_name HTTPNotImplemented = ''HTTPNotImplemented''"
| "class_name HTTPServiceUnavailable = ''HTTPServiceUnavailable''"
| "class_name HTTPServerError = ''HTTPServerError''"

fun class_code :: "http_class \<Rightarrow> int" where
  "class_code HTTPBadRequest = 400"
| "class_code HTTPUnauthorized = 401"
| "class_code HTTPForbidden = 403"
| "class_code HTTPNotFound = 404"
| "class_code HTTPMethodNotAllowed = 405"
| "class_code HTTPNotAcceptable = 406"
| "class_code HTTPConflict = 409"
| "class_code HTTPRequestEntityTooLarge = 413"
| "class_code HTTPUnsupportedMediaType = 415"
| "class_code HTTPUnprocessableEntity = 422"
| "class_code HTTPInternalServerError = 500"
| "class_code HTTPNotImplemented = 501"
| "class_code HTTPServiceUnavailable = 503"
| "class_code HTTPServerError = 500"

text \<open>
  An instance of such a class. \<open>detail\<close> is the constructor's first argument
  (\<open>None\<close> when it is not given); \<open>explanation\<close> is the class's generic text, which
  webob defines and this file takes as the table \<open>expl\<close>.
\<close>

record http_exc =
  cls :: http_class
  status_int :: int
  detail :: "string option"
  explanation :: string

definition new_exc :: "(http_class \<Rightarrow> string) \<Rightarrow> http_class \<Rightarrow> string option \<Rightarrow> http_exc" where
  "new_exc expl c d = \<lparr>cls = c, status_int = class_code c, detail = d, explanation = expl c\<rparr>"

text \<open>\<open>Fault(exception)\<close>: the constructor only stores the wrapped exception.\<close>

datatype fault = Fault (wrapped_exc: http_exc)

section \<open>Strings as Python has them\<close>

text \<open>\<open>str.lower()\<close> on a byte string: the letters A to Z move to a to z.\<close>

definition lower_char :: "char \<Rightarrow> char" where
  "lower_char c =
     (case map_of (zip ''ABCDEFGHIJKLMNOPQRSTUVWXYZ'' ''abcdefghijklmnopqrstuvwxyz'') c of
        Some l \<Rightarrow> l
      | None \<Rightarrow> c)"

definition lower :: "string \<Rightarrow> string" where
  "lower s = map lower_char s"

text \<open>
  \<open>s.split(sep)\<close> for a separator that is not empty (Python raises \<open>ValueError\<close>
  on an empty one; every call in the source passes a literal). \<open>acc\<close> is the current
  piece, reversed.
\<close>

function split_from :: "string \<Rightarrow> string \<Rightarrow> string \<Rightarrow> string list" where
  "split_from sep acc [] = [rev acc]"
| "split_from sep acc (c # cs) =
     (if sep \<noteq> [] \<and> take (length sep) (c # cs) = sep
      then rev acc # split_from sep [] (drop (length sep) (c # cs))
      else split_from sep (c # acc) cs)"
  by pat_completeness auto
termination
  by (relation "measure (\<lambda>(sep, acc, s). length s)") auto

definition split :: "string \<Rightarrow> string \<Rightarrow> string list" where
  "split s sep = split_from sep [] s"

section \<open>Fault names\<close>

definition named_exceptions :: "(string \<times> string) list" where
  "named_exceptions =
     [(''HTTPBadRequest'', ''badRequest''),
      (''HTTPUnauthorized'', ''unauthorized''),
      (''HTTPForbidden'', ''forbidden''),
      (''HTTPNotFound'', ''itemNotFound''),
      (''HTTPMethodNotAllowed'', ''badMethod''),
      (''HTTPRequestEntityTooLarge'', ''overLimit''),
      (''HTTPUnsupportedMediaType'', ''badMediaType''),
      (''HTTPInternalServerError'', ''instanceFault''),
      (''HTTPNotImplemented'', ''notImplemented''),
      (''HTTPServiceUnavailable'', ''serviceUnavailable'')]"

text \<open>
  \<open>Fault._get_error_name\<close>: a listed class name gives its fault name; any other name
  loses everything up to its last \<open>HTTP\<close> and the case of its first letter.
\<close>

definition get_error_name :: "http_exc \<Rightarrow> string" where
  "get_error_name exc =
     (let name = class_name (cls exc) in
      case map_of named_exceptions name of
        Some n \<Rightarrow> n
      | None \<Rightarrow>
          (let name = last (split name ''HTTP'')
           in lower (take 1 name) @ drop 1 name))"

section \<open>Requests\<close>

text \<open>
  A request: its path, its headers (webob looks header names up without regard to case,
  so the map is keyed by the lower-cased name) and its query parameters.
\<close>

record request =
  path :: string
  headers :: "string \<rightharpoonup> string"
  params :: "string \<rightharpoonup> string"

definition get_header :: "request \<Rightarrow> string \<Rightarrow> string option" where
  "get_header req name = headers req (lower name)"

subsection \<open>Content negotiation\<close>

text \<open>\<open>s.rsplit(c, 1)\<close>: one split, at the last occurrence of \<open>c\<close>.\<close>

definition rsplit1 :: "string \<Rightarrow> char \<Rightarrow> string list" where
  "rsplit1 s c =
     (if c \<in> set s
      then [rev (drop 1 (dropWhile (\<lambda>x. x \<noteq> c) (rev s))), rev (takeWhile (\<lambda>x. x \<noteq> c) (rev s))]
      else [s])"

definition ctypes :: "(string \<times> string) list" where
  "ctypes =
     [(''application/vnd.openstack.reddwarf+json'', ''application/json''),
      (''application/vnd.openstack.reddwarf+xml'', ''application/xml''),
      (''application/json'', ''application/json''),
      (''application/xml'', ''application/xml'')]"

text \<open>
  \<open>Request.best_match_content_type\<close>. \<open>bm\<close> is webob's \<open>accept.best_match\<close>: from
  the Accept header (if any) and the offered types to the chosen offer, or \<open>None\<close>.
\<close>

definition best_match_content_type ::
  "(string option \<Rightarrow> string list \<Rightarrow> string option) \<Rightarrow> request \<Rightarrow> string" where
  "best_match_content_type bm req =
     (let parts = rsplit1 (path req) (CHR ''.'') in
      if length parts > 1 \<and> parts ! 1 \<in> set [''json'', ''xml'']
      then ''application/'' @ parts ! 1
      else
        (case bm (get_header req ''Accept'') (map fst ctypes) of
           None \<Rightarrow> ''application/json''
         | Some m \<Rightarrow>
             (case map_of ctypes m of
                None \<Rightarrow> ''application/json''
              | Some t \<Rightarrow> t)))"

subsection \<open>Version patterns\<close>














subsection \<open>The version router\<close>



section \<open>Log records\<close>

text \<open>What a call writes to \<open>LOG\<close>, in order; \<open>'m\<close> is what the message is built from.\<close>

datatype 'm log_record =
    LOG_debug 'm
  | LOG_error 'm
  | LOG_exception 'm

section \<open>Results\<close>

text \<open>
  The value a \<open>Result\<close> holds: the object itself and, where it has the attribute, what
  \<open>data_for_xml()\<close> and \<open>data_for_json()\<close> return. A plain dictionary has neither.
\<close>

datatype 'd payload =
  Payload (itself: 'd) (data_for_xml: "'d option") (data_for_json: "'d option")

record 'd result =
  result_data :: "'d payload"
  status :: int

definition Result :: "'d payload \<Rightarrow> int \<Rightarrow> 'd result" where
  "Result d s = \<lparr>result_data = d, status = s\<rparr>"

text \<open>\<open>Result.data(serialization_type)\<close>.\<close>

definition Result_data :: "'d result \<Rightarrow> string \<Rightarrow> 'd" where
  "Result_data r serialization_type =
     (if serialization_type = ''application/xml'' \<and> data_for_xml (result_data r) \<noteq> None
      then the (data_for_xml (result_data r))
      else if data_for_json (result_data r) \<noteq> None
      then the (data_for_json (result_data r))
      else itself (result_data r))"

text \<open>
  \<open>ReddwarfResponseSerializer.serialize_body\<close>: the \<open>data\<close> argument is a \<open>Result\<close> or
  anything else; \<open>super_serialize_body\<close> is the inherited method it ends with.
\<close>

datatype 'd body_data =
    IsResult "'d result"
  | NotResult 'd

definition serialize_body ::
  "('r \<Rightarrow> 'd \<Rightarrow> string \<Rightarrow> 'x) \<Rightarrow> 'r \<Rightarrow> 'd body_data \<Rightarrow> string \<Rightarrow> 'x" where
  "serialize_body super_serialize_body response d content_type =
     (let d' = (case d of
                  IsResult r \<Rightarrow> Result_data r content_type
                | NotResult x \<Rightarrow> x)
      in super_serialize_body response d' content_type)"

section \<open>Resource: running an action\<close>

text \<open>
  The error classes of \<open>reddwarf.common.exception\<close> that the controller's table names;
  every other subclass of \<open>ReddwarfError\<close> (and \<open>ReddwarfError\<close> itself) is
  \<open>OtherReddwarfError\<close> with its class name.
\<close>

datatype reddwarf_error_class =
    UnprocessableEntity
  | Forbidden
  | InvalidModelError
  | BadRequest
  | CannotResizeToSameSize
  | BadValue
  | DatabaseAlreadyExists
  | UserAlreadyExists
  | NotFound
  | ComputeInstanceNotFound
  | ModelNotFoundError
  | UserNotFound
  | DatabaseNotFound
  | QuotaResourceUnknown
  | OverLimit
  | QuotaExceeded
  | VolumeQuotaExceeded
  | VolumeCreationFailure
  | UpdateGuestError
  | OtherReddwarfError string

text \<open>
  A raised exception, by the \<open>except\<close> clause that catches it: a \<open>ReddwarfError\<close> with
  its exact type and \<open>str(error)\<close>, a webob \<open>HTTPError\<close>, or any other \<open>Exception\<close>
  with \<open>str(error)\<close>.
\<close>

datatype py_exception =
    ReddwarfError reddwarf_error_class string
  | HTTPError http_exc
  | OtherException string

text \<open>\<open>Resource._invert_dict_list\<close>, over the items of the dictionary in iteration order.\<close>

fun invert_values :: "'k \<Rightarrow> 'v list \<Rightarrow> ('v \<rightharpoonup> 'k) \<Rightarrow> ('v \<rightharpoonup> 'k)" where
  "invert_values key [] inverted_dict = inverted_dict"
| "invert_values key (v # value_list) inverted_dict =
     invert_values key value_list (inverted_dict(v \<mapsto> key))"

fun invert_items :: "('k \<times> 'v list) list \<Rightarrow> ('v \<rightharpoonup> 'k) \<Rightarrow> ('v \<rightharpoonup> 'k)" where
  "invert_items [] inverted_dict = inverted_dict"
| "invert_items ((key, value_list) # items) inverted_dict =
     invert_items items (invert_values key value_list inverted_dict)"

definition invert_dict_list :: "('k \<times> 'v list) list \<Rightarrow> ('v \<rightharpoonup> 'k)" where
  "invert_dict_list exception_dict = invert_items exception_dict Map.empty"

text \<open>\<open>Resource.__init__\<close>: \<open>exception_map or {}\<close>, inverted.\<close>

definition model_exception_map ::
  "(http_class \<times> reddwarf_error_class list) list option
   \<Rightarrow> (reddwarf_error_class \<rightharpoonup> http_class)" where
  "model_exception_map exception_map =
     invert_dict_list (case exception_map of None \<Rightarrow> [] | Some m \<Rightarrow> m)"

definition get_http_error ::
  "(reddwarf_error_class \<rightharpoonup> http_class) \<Rightarrow> reddwarf_error_class \<Rightarrow> http_class" where
  "get_http_error m error_type =
     (case m error_type of
        Some c \<Rightarrow> c
      | None \<Rightarrow> HTTPBadRequest)"

text \<open>
  What the inherited \<open>execute_action\<close> does when it calls the controller's method: the
  method returns a dictionary, returns any other object, or raises.
\<close>

datatype ('d, 'o) outcome =
    ReturnDict 'd
  | ReturnObject 'o
  | Raise py_exception

datatype ('d, 'o) action_result =
    ResultObject "'d result"
  | Object 'o
  | FaultObject fault

text \<open>
  \<open>Resource.execute_action\<close>. The action is \<open>None\<close> when the controller has no such
  attribute; otherwise it is the outcome of the call.
\<close>

definition execute_action ::
  "(http_class \<Rightarrow> string) \<Rightarrow> (reddwarf_error_class \<rightharpoonup> http_class)
   \<Rightarrow> ('d, 'o) outcome option
   \<Rightarrow> py_exception log_record list \<times> ('d, 'o) action_result" where
  "execute_action expl m action =
     (case action of
        None \<Rightarrow> ([], FaultObject (Fault (new_exc expl HTTPNotFound None)))
      | Some (ReturnDict d) \<Rightarrow> ([], ResultObject (Result (Payload d None None) 200))
      | Some (ReturnObject x) \<Rightarrow> ([], Object x)
      | Some (Raise (ReddwarfError t msg)) \<Rightarrow>
          (let httpError = get_http_error m t
           in ([LOG_debug (ReddwarfError t msg)],
               FaultObject (Fault (new_exc expl httpError (Some msg)))))
      | Some (Raise (HTTPError http_error)) \<Rightarrow>
          ([LOG_debug (HTTPError http_error)], FaultObject (Fault http_error))
      | Some (Raise (OtherException msg)) \<Rightarrow>
          ([LOG_exception (OtherException msg)],
           FaultObject (Fault (new_exc expl HTTPInternalServerError (Some msg)))))"

text \<open>
  \<open>Resource.serialize_response\<close>. \<open>super_result\<close> is what the inherited method does
  (raises an exception or returns the response); \<open>is_webob_response\<close> is
  \<open>isinstance(action_result, webob.Response)\<close>. When the exception is not raised again
  the method ends without a \<open>return\<close>, so it returns \<open>None\<close>.
\<close>

definition serialize_response ::
  "py_exception + 'r \<Rightarrow> bool \<Rightarrow> py_exception log_record list \<times> (py_exception + 'r option)" where
  "serialize_response super_result is_webob_response =
     (case super_result of
        Inr response \<Rightarrow> ([], Inr (Some response))
      | Inl ex \<Rightarrow>
          if \<not> is_webob_response then ([LOG_error ex], Inl ex) else ([], Inr None))"

section \<open>Controller\<close>

definition exception_map :: "(http_class \<times> reddwarf_error_class list) list" where
  "exception_map =
     [(HTTPUnprocessableEntity, [UnprocessableEntity]),
      (HTTPUnauthorized, [Forbidden]),
      (HTTPBadRequest,
         [InvalidModelError, BadRequest, CannotResizeToSameSize, BadValue,
          DatabaseAlreadyExists, UserAlreadyExists]),
      (HTTPNotFound,
         [NotFound, ComputeInstanceNotFound, ModelNotFoundError, UserNotFound,
          DatabaseNotFound, QuotaResourceUnknown]),
      (HTTPConflict, []),
      (HTTPRequestEntityTooLarge, [OverLimit, QuotaExceeded, VolumeQuotaExceeded]),
      (HTTPServerError, [VolumeCreationFailure, UpdateGuestError])]"

text \<open>\<open>Controller.create_resource\<close>: the resource's inverted map.\<close>

definition controller_model_exception_map :: "reddwarf_error_class \<rightharpoonup> http_class" where
  "controller_model_exception_map = model_exception_map (Some exception_map)"

section \<open>Fault documents\<close>

datatype fault_field = IntField int | StrField string

text \<open>Python's truth value of \<open>detail\<close>: \<open>None\<close> and the empty string are false.\<close>

definition truthy :: "string option \<Rightarrow> bool" where
  "truthy d = (case d of None \<Rightarrow> False | Some s \<Rightarrow> s \<noteq> [])"

definition fault_data :: "http_exc \<Rightarrow> (string \<times> (string \<times> fault_field) list) list" where
  "fault_data exc =
     (let fault_name = get_error_name exc;
          message = (if truthy (detail exc) then the (detail exc) else explanation exc)
      in [(fault_name, [(''code'', IntField (status_int exc)), (''message'', StrField message)])])"

record 'b fault_response =
  fault_exc :: http_exc
  fault_body :: 'b
  fault_content_type :: string

datatype key_error = KeyError string

text \<open>
  \<open>Fault.__call__\<close>. The two serializers are the inherited \<open>XMLDictSerializer\<close> (made
  with the metadata) and \<open>JSONDictSerializer\<close>; the dictionary of serializers has only
  the two content types.
\<close>

definition fault_call ::
  "(string option \<Rightarrow> string list \<Rightarrow> string option)
   \<Rightarrow> ((string \<times> (string \<times> string) list) list \<Rightarrow> (string \<times> (string \<times> fault_field) list) list \<Rightarrow> 'b)
   \<Rightarrow> ((string \<times> (string \<times> fault_field) list) list \<Rightarrow> 'b)
   \<Rightarrow> fault \<Rightarrow> request \<Rightarrow> key_error + 'b fault_response" where
  "fault_call bm xml_serialize json_serialize flt req =
     (let fault_name = get_error_name (wrapped_exc flt);
          fd = fault_data (wrapped_exc flt);
          metadata = [(''attributes'', [(fault_name, ''code'')])];
          ct = best_match_content_type bm req
      in if ct = ''application/xml''
         then Inr \<lparr>fault_exc = wrapped_exc flt, fault_body = xml_serialize metadata fd,
                   fault_content_type = ct\<rparr>
         else if ct = ''application/json''
         then Inr \<lparr>fault_exc = wrapped_exc flt, fault_body = json_serialize fd,
                   fault_content_type = ct\<rparr>
         else Inl (KeyError ct))"

section \<open>Context middleware\<close>

text \<open>The fields \<open>process_request\<close> passes to \<open>ReddwarfContext\<close>.\<close>

record reddwarf_context =
  auth_tok :: string
  tenant :: "string option"
  user :: "string option"
  is_admin :: bool
  limit :: "string option"
  marker :: "string option"

text \<open>\<open>ContextMiddleware._extract_limits\<close>: the entries of the two keys, where present.\<close>

definition extract_limits :: "(string \<rightharpoonup> string) \<Rightarrow> (string \<rightharpoonup> string)" where
  "extract_limits ps = (\<lambda>key. if key \<in> set [''limit'', ''marker''] then ps key else None)"

text \<open>The loop over the roles, which stops at the first one found in \<open>admin_roles\<close>.\<close>

fun roles_admin :: "string list \<Rightarrow> string list \<Rightarrow> bool" where
  "roles_admin admin_roles [] = False"
| "roles_admin admin_roles (role # roles) =
     (if lower role \<in> set admin_roles then True else roles_admin admin_roles roles)"

text \<open>
  \<open>ContextMiddleware.process_request\<close>: \<open>request.headers["X-Auth-Token"]\<close> raises
  \<open>KeyError\<close> when the header is missing; otherwise the context is stored in the
  request's environment, which is the value returned here.
\<close>

definition process_request :: "string list \<Rightarrow> request \<Rightarrow> key_error + reddwarf_context" where
  "process_request admin_roles req =
     (let tenant_id = get_header req ''X-Tenant-Id'' in
      case get_header req ''X-Auth-Token'' of
        None \<Rightarrow> Inl (KeyError ''X-Auth-Token'')
      | Some tok \<Rightarrow>
          (let usr = get_header req ''X-User'';
               roles = split (case get_header req ''X-Role'' of None \<Rightarrow> [] | Some r \<Rightarrow> r) '','';
               admin = roles_admin admin_roles roles;
               limits = extract_limits (params req)
           in Inr \<lparr>auth_tok = tok, tenant = tenant_id, user = usr, is_admin = admin,
                   limit = limits ''limit'', marker = limits ''marker''\<rparr>))"

text \<open>
  Modelled from the spec: the inherited \<open>Middleware.__call__\<close>, which is not in the
  source file. It runs \<open>process_request\<close> first and then hands the request, with its
  context, to the wrapped application; an exception of \<open>process_request\<close> ends the call
  ("request rejected before reaching business logic").
\<close>

definition context_middleware_call ::
  "string list \<Rightarrow> (reddwarf_context \<Rightarrow> request \<Rightarrow> 'r) \<Rightarrow> request \<Rightarrow> key_error + 'r" where
  "context_middleware_call admin_roles application req =
     (case process_request admin_roles req of
        Inl e \<Rightarrow> Inl e
      | Inr ctx \<Rightarrow> Inr (application ctx req))"

section \<open>Fault wrapper\<close>

record response =
  resp_status_int :: int
  headerlist :: "(string \<times> string) list"
  resp_body :: string

definition code_wrapper :: "(int \<times> http_class) list" where
  "code_wrapper =
     [(400, HTTPBadRequest),
      (401, HTTPUnauthorized),
      (403, HTTPUnauthorized),
      (404, HTTPNotFound)]"

definition resp_codes :: "int list" where
  "resp_codes = map fst code_wrapper"

text \<open>The loop over the header list: is there a header that makes the call return a fault?\<close>

fun plain_text_header :: "(string \<times> string) list \<Rightarrow> bool" where
  "plain_text_header [] = False"
| "plain_text_header ((header, v) # hs) =
     (if header = ''Content-Type'' \<and> v = ''text/plain; charset=UTF-8'' then True
      else plain_text_header hs)"

datatype wrapped =
    ResponseOut response
  | FaultOut fault

text \<open>
  \<open>FaultWrapper.__call__\<close>. \<open>downstream\<close> is what \<open>req.get_response(self.application)\<close>
  does: it raises or returns a response. A missing key of \<open>code_wrapper\<close> would raise
  inside the \<open>try\<close> and end in the same handler.
\<close>

definition fault_wrapper_call ::
  "(http_class \<Rightarrow> string) \<Rightarrow> py_exception + response
   \<Rightarrow> py_exception log_record list \<times> wrapped" where
  "fault_wrapper_call expl downstream =
     (let handler = (\<lambda>ex. ([LOG_exception ex],
                           FaultOut (Fault (new_exc expl HTTPInternalServerError None))))
      in case downstream of
           Inl ex \<Rightarrow> handler ex
         | Inr resp \<Rightarrow>
             if resp_status_int resp \<in> set resp_codes
             then
               (if plain_text_header (headerlist resp)
                then
                  (case map_of code_wrapper (resp_status_int resp) of
                     None \<Rightarrow> handler (OtherException ''KeyError'')
                   | Some c \<Rightarrow> ([], FaultOut (Fault (new_exc expl c None))))
                else ([], ResponseOut resp))
             else ([], ResponseOut resp))"

section \<open>XML serialization\<close>

datatype xml =
    Element (tagName: string) (attributes: "(string \<times> string) list") (childNodes: "xml list")
  | Text string

text \<open>
  The values the serializer walks: an atom (with its \<open>str\<close>), a list, a dictionary
  (its items in iteration order) or an object that has \<open>to_xml\<close> (with the node the
  method returns).
\<close>

datatype pyval =
    Atom string
  | PyList "pyval list"
  | PyDict "(string \<times> pyval) list"
  | ToXml xml

text \<open>
  The dictionary literal has the key \<open>account\<close> twice; the later entry is the one
  the dictionary keeps.
\<close>

definition CUSTOM_SERIALIZER_METADATA :: "(string \<times> string list) list" where
  "CUSTOM_SERIALIZER_METADATA =
     [(''instance'',
         [''status'', ''hostname'', ''id'', ''name'', ''created'', ''updated'', ''host'',
          ''server_id'', ''local_id'', ''task_description'', ''deleted'', ''deleted_at'',
          ''tenant_id'']),
      (''volume'', [''size'', ''used'', ''id'']),
      (''flavor'', [''id'', ''ram'', ''name'']),
      (''link'', [''href'', ''rel'']),
      (''database'', [''name'']),
      (''user'', [''name'', ''password'']),
      (''host'', [''instanceCount'', ''name'', ''usedRAM'', ''totalRAM'', ''percentUsed'']),
      (''capacity'', [''available'', ''total'']),
      (''provision'', [''available'', ''total'', ''percent'']),
      (''device'', [''used'', ''name'', ''type'']),
      (''account'', [''id'', ''num_instances'']),
      (''quotas'', [''instances'', ''volumes'']),
      (''guest_status'', [''state_description'']),
      (''diagnostics'',
         [''vmHwm'', ''vmPeak'', ''vmSize'', ''threads'', ''version'', ''vmRss'', ''fdSize'']),
      (''root_history'', [''enabled'', ''id'', ''user''])]"

definition attrs_of :: "string \<Rightarrow> string list" where
  "attrs_of nodename =
     (case map_of CUSTOM_SERIALIZER_METADATA nodename of None \<Rightarrow> [] | Some a \<Rightarrow> a)"

text \<open>
  The attribute an entry of a dictionary becomes, if it becomes one: a scalar field
  whose key is listed for the element.
\<close>

definition attribute_of :: "string \<Rightarrow> string \<times> pyval \<Rightarrow> (string \<times> string) option" where
  "attribute_of nodename kv =
     (case snd kv of
        Atom s \<Rightarrow> if fst kv \<in> set (attrs_of nodename) then Some (fst kv, s) else None
      | _ \<Rightarrow> None)"

text \<open>
  Modelled from the spec: the inherited \<open>XMLDictSerializer._to_xml_node\<close>, which is not
  in the source file, in the equations for atoms, lists and dictionaries. The node is an
  element named \<open>nodename\<close>; "nested mappings become child elements; sequences become
  repeated child elements of a singular tag name; scalar fields listed as attributes for
  that element's registered type render as XML attributes instead of child elements".
  \<open>singular\<close> gives the singular tag name of a list's tag.

  The first equation is \<open>ReddwarfXMLDictSerializer._to_xml_node\<close>, which is in the
  source: an object with \<open>to_xml\<close> renders itself, and anything else goes to the
  inherited method, with \<open>CUSTOM_SERIALIZER_METADATA\<close> as the table of attributes.
\<close>

fun to_xml_node :: "(string \<Rightarrow> string) \<Rightarrow> string \<Rightarrow> pyval \<Rightarrow> xml" where
  "to_xml_node singular nodename (ToXml x) = x"
| "to_xml_node singular nodename (Atom s) = Element nodename [] [Text s]"
| "to_xml_node singular nodename (PyList items) =
     Element nodename [] (map (to_xml_node singular (singular nodename)) items)"
| "to_xml_node singular nodename (PyDict entries) =
     Element nodename
       (List.map_filter (attribute_of nodename) entries)
       (map (\<lambda>kv. to_xml_node singular (fst kv) (snd kv))
         (filter (\<lambda>kv. attribute_of nodename kv = None) entries))"

text \<open>\<open>node.appendChild(child)\<close>; minidom refuses to give a text node a child.\<close>

datatype xml_message =
    MultipleRootKeys "(string \<times> pyval) list"
  | MissingRootKey "(string \<times> pyval) list"

datatype xml_error =
    RuntimeError xml_message
  | HierarchyRequestErr
  | DictKeyError string

definition appendChild :: "xml \<Rightarrow> xml \<Rightarrow> xml_error + xml" where
  "appendChild node child =
     (case node of
        Element n a cs \<Rightarrow> Inr (Element n a (cs @ [child]))
      | Text s \<Rightarrow> Inl HierarchyRequestErr)"

text \<open>
  The loop of \<open>ReddwarfXMLDictSerializer.default\<close> over the keys: \<open>None\<close> when it
  raises at a second root key, otherwise the final \<open>has_links\<close> and \<open>root_key\<close>.
\<close>

fun find_root_key :: "string list \<Rightarrow> bool \<Rightarrow> string option \<Rightarrow> (bool \<times> string option) option" where
  "find_root_key [] has_links root_key = Some (has_links, root_key)"
| "find_root_key (key # keys) has_links root_key =
     (if key = ''links'' then find_root_key keys True root_key
      else if root_key = None then find_root_key keys has_links (Some key)
      else None)"

definition getitem :: "(string \<times> pyval) list \<Rightarrow> string \<Rightarrow> xml_error + pyval" where
  "getitem d key = (case map_of d key of None \<Rightarrow> Inl (DictKeyError key) | Some v \<Rightarrow> Inr v)"

text \<open>
  \<open>ReddwarfXMLDictSerializer.default\<close>, with what it logs. \<open>to_xml_string\<close> is the
  inherited method that renders the finished node.
\<close>

definition default_xml ::
  "(string \<Rightarrow> string) \<Rightarrow> (xml \<Rightarrow> 'b) \<Rightarrow> (string \<times> pyval) list
   \<Rightarrow> xml_message log_record list \<times> (xml_error + 'b)" where
  "default_xml singular to_xml_string d =
     (case find_root_key (map fst d) False None of
        None \<Rightarrow> ([LOG_error (MultipleRootKeys d)], Inl (RuntimeError (MultipleRootKeys d)))
      | Some (has_links, None) \<Rightarrow>
          ([LOG_error (MissingRootKey d)], Inl (RuntimeError (MissingRootKey d)))
      | Some (has_links, Some root_key) \<Rightarrow>
          ([],
           case getitem d root_key of
             Inl e \<Rightarrow> Inl e
           | Inr v \<Rightarrow>
               (let node = to_xml_node singular root_key v in
                if has_links
                then
                  (case getitem d ''links'' of
                     Inl e \<Rightarrow> Inl e
                   | Inr l \<Rightarrow>
                       (case appendChild node (to_xml_node singular ''links'' l) of
                          Inl e \<Rightarrow> Inl e
                        | Inr node' \<Rightarrow> Inr (to_xml_string node')))
                else Inr (to_xml_string node))))"

section \<open>Notions the properties are stated with\<close>

text \<open>The keys of a mapping other than \<open>links\<close>, in iteration order.\<close>

definition root_keys :: "(string \<times> pyval) list \<Rightarrow> string list" where
  "root_keys d = filter (\<lambda>key. key \<noteq> ''links'') (map fst d)"

text \<open>
  A match without regard to case, as a reader takes "matched case-insensitively against
  the admin-role set": some element of the comma-separated list and some configured role
  are equal once both are lower-cased. This is the reading that \<open>roles_admin\<close> is
  compared with; it is not part of the source.
\<close>

definition case_insensitive_admin :: "string list \<Rightarrow> string \<Rightarrow> bool" where
  "case_insensitive_admin admin_roles x_role =
     list_ex (\<lambda>role. list_ex (\<lambda>a. lower a = lower role) admin_roles) (split x_role '','')"

section \<open>Properties of the error table\<close>

lemma invert_values_apply:
  "invert_values key vs m t = (if t \<in> set vs then Some key else m t)"
  by (induction vs arbitrary: m) auto

lemma invert_items_Some:
  "invert_items items m t = Some c \<Longrightarrow>
     (\<exists>vs. (c, vs) \<in> set items \<and> t \<in> set vs) \<or> m t = Some c"
proof (induction items arbitrary: m)
  case Nil
  then show ?case by simp
next
  case (Cons kv items)
  obtain k vs where kv: "kv = (k, vs)" by (cases kv)
  from Cons.prems kv have "invert_items items (invert_values k vs m) t = Some c" by simp
  from Cons.IH [OF this]
  show ?case
    by (auto simp: kv invert_values_apply split: if_splits)
qed

lemma invert_items_None:
  "invert_items items m t = None \<longleftrightarrow> m t = None \<and> (\<forall>(c, vs) \<in> set items. t \<notin> set vs)"
  by (induction items arbitrary: m) (auto simp: invert_values_apply split: if_splits)

lemma get_http_error_registered:
  assumes "t \<in> (\<Union>kv \<in> set table. set (snd kv))"
  shows "\<exists>vs. (get_http_error (model_exception_map (Some table)) t, vs) \<in> set table \<and> t \<in> set vs"
proof -
  from assms have "invert_items table Map.empty t \<noteq> None"
    by (auto simp: invert_items_None)
  then obtain c where c: "invert_items table Map.empty t = Some c" by blast
  from invert_items_Some [OF c] obtain vs where "(c, vs) \<in> set table" "t \<in> set vs" by auto
  with c show ?thesis
    by (auto simp: get_http_error_def model_exception_map_def invert_dict_list_def)
qed

lemma get_http_error_unregistered:
  assumes "t \<notin> (\<Union>kv \<in> set table. set (snd kv))"
  shows "get_http_error (model_exception_map (Some table)) t = HTTPBadRequest"
proof -
  from assms have "invert_items table Map.empty t = None"
    by (auto simp: invert_items_None)
  then show ?thesis
    by (simp add: get_http_error_def model_exception_map_def invert_dict_list_def)
qed

lemma controller_map_apply:
  "get_http_error controller_model_exception_map t =
     (if t = UnprocessableEntity then HTTPUnprocessableEntity
      else if t = Forbidden then HTTPUnauthorized
      else if t \<in> {InvalidModelError, BadRequest, CannotResizeToSameSize, BadValue,
          DatabaseAlreadyExists, UserAlreadyExists} then HTTPBadRequest
      else if t \<in> {NotFound, ComputeInstanceNotFound, ModelNotFoundError, UserNotFound,
          DatabaseNotFound, QuotaResourceUnknown} then HTTPNotFound
      else if t \<in> {OverLimit, QuotaExceeded, VolumeQuotaExceeded} then HTTPRequestEntityTooLarge
      else if t \<in> {VolumeCreationFailure, UpdateGuestError} then HTTPServerError
      else HTTPBadRequest)"
  by (simp add: controller_model_exception_map_def model_exception_map_def
      invert_dict_list_def exception_map_def get_http_error_def)

lemma execute_action_reddwarf_error:
  "execute_action expl m (Some (Raise (ReddwarfError t msg))) =
     ([LOG_debug (ReddwarfError t msg)],
      FaultObject (Fault (new_exc expl (get_http_error m t) (Some msg))))"
  by (simp add: execute_action_def)

lemma status_int_new_exc: "status_int (new_exc expl c d) = class_code c"
  by (simp add: new_exc_def)

text \<open>
  Claim C2. Business logic raises a \<open>ReddwarfError\<close> of exact type \<open>t\<close> while a resource
  built from the table \<open>{status: [error_kind, ...]}\<close> runs an action. If the table lists
  \<open>t\<close>, the fault wraps an error of a status class under which the table lists \<open>t\<close>, with
  that class's status code (so the one class, when \<open>t\<close> is listed only once); if the
  table does not list \<open>t\<close>, the fault wraps \<open>HTTPBadRequest\<close>, status 400. In both
  cases the error's text is the fault's detail.
\<close>

theorem execute_action_status_of_error:
  "(t \<in> (\<Union>kv \<in> set table. set (snd kv)) \<longrightarrow>
      (\<exists>c vs. (c, vs) \<in> set table \<and> t \<in> set vs \<and>
         execute_action expl (model_exception_map (Some table))
             (Some (Raise (ReddwarfError t msg)))
           = ([LOG_debug (ReddwarfError t msg)],
              FaultObject (Fault (new_exc expl c (Some msg)))) \<and>
         status_int (new_exc expl c (Some msg)) = class_code c))
   \<and> (t \<in> (\<Union>kv \<in> set table. set (snd kv)) \<longrightarrow>
        (\<forall>c. (\<forall>c' vs. (c', vs) \<in> set table \<and> t \<in> set vs \<longrightarrow> c' = c) \<longrightarrow>
           execute_action expl (model_exception_map (Some table))
               (Some (Raise (ReddwarfError t msg)))
             = ([LOG_debug (ReddwarfError t msg)],
                FaultObject (Fault (new_exc expl c (Some msg))))))
   \<and> (t \<notin> (\<Union>kv \<in> set table. set (snd kv)) \<longrightarrow>
        execute_action expl (model_exception_map (Some table))
            (Some (Raise (ReddwarfError t msg)))
          = ([LOG_debug (ReddwarfError t msg)],
             FaultObject (Fault (new_exc expl HTTPBadRequest (Some msg)))) \<and>
        status_int (new_exc expl HTTPBadRequest (Some msg)) = 400)"
proof (intro conjI impI allI)
  assume reg: "t \<in> (\<Union>kv \<in> set table. set (snd kv))"
  from get_http_error_registered [OF reg]
  obtain vs where vs: "(get_http_error (model_exception_map (Some table)) t, vs) \<in> set table"
    "t \<in> set vs" by blast
  then show "\<exists>c vs. (c, vs) \<in> set table \<and> t \<in> set vs \<and>
         execute_action expl (model_exception_map (Some table))
             (Some (Raise (ReddwarfError t msg)))
           = ([LOG_debug (ReddwarfError t msg)],
              FaultObject (Fault (new_exc expl c (Some msg)))) \<and>
         status_int (new_exc expl c (Some msg)) = class_code c"
    unfolding execute_action_reddwarf_error status_int_new_exc by blast
next
  fix c
  assume reg: "t \<in> (\<Union>kv \<in> set table. set (snd kv))"
    and only: "\<forall>c' vs. (c', vs) \<in> set table \<and> t \<in> set vs \<longrightarrow> c' = c"
  from get_http_error_registered [OF reg] only
  have "get_http_error (model_exception_map (Some table)) t = c" by blast
  then show "execute_action expl (model_exception_map (Some table))
               (Some (Raise (ReddwarfError t msg)))
             = ([LOG_debug (ReddwarfError t msg)],
                FaultObject (Fault (new_exc expl c (Some msg))))"
    by (simp add: execute_action_reddwarf_error)
next
  assume "t \<notin> (\<Union>kv \<in> set table. set (snd kv))"
  from get_http_error_unregistered [OF this]
  show "execute_action expl (model_exception_map (Some table))
            (Some (Raise (ReddwarfError t msg)))
          = ([LOG_debug (ReddwarfError t msg)],
             FaultObject (Fault (new_exc expl HTTPBadRequest (Some msg))))"
    by (simp add: execute_action_reddwarf_error)
next
  show "status_int (new_exc expl HTTPBadRequest (Some msg)) = 400"
    by (simp add: status_int_new_exc)
qed

theorem execute_action_status_of_error_witness:
  "execute_action (\<lambda>c. ''generic'') (model_exception_map (Some exception_map))
       (Some (Raise (ReddwarfError QuotaExceeded ''quota'')) :: (unit, unit) outcome option)
     = ([LOG_debug (ReddwarfError QuotaExceeded ''quota'')],
        FaultObject (Fault \<lparr>cls = HTTPRequestEntityTooLarge, status_int = 413,
                            detail = Some ''quota'', explanation = ''generic''\<rparr>))
   \<and> execute_action (\<lambda>c. ''generic'') (model_exception_map (Some exception_map))
       (Some (Raise (ReddwarfError (OtherReddwarfError ''GuestError'') ''guest''))
          :: (unit, unit) outcome option)
     = ([LOG_debug (ReddwarfError (OtherReddwarfError ''GuestError'') ''guest'')],
        FaultObject (Fault \<lparr>cls = HTTPBadRequest, status_int = 400,
                            detail = Some ''guest'', explanation = ''generic''\<rparr>))"
proof -
  have only: "\<forall>c' vs. (c', vs) \<in> set exception_map \<and> QuotaExceeded \<in> set vs
      \<longrightarrow> c' = HTTPRequestEntityTooLarge"
    by (auto simp: exception_map_def)
  have reg: "QuotaExceeded \<in> (\<Union>kv \<in> set exception_map. set (snd kv))"
    by (simp add: exception_map_def)
  have unreg: "OtherReddwarfError ''GuestError'' \<notin> (\<Union>kv \<in> set exception_map. set (snd kv))"
    by (simp add: exception_map_def)
  from execute_action_status_of_error
    [of QuotaExceeded exception_map "\<lambda>c. ''generic''" "''quota''"] reg only
  have a: "execute_action (\<lambda>c. ''generic'') (model_exception_map (Some exception_map))
       (Some (Raise (ReddwarfError QuotaExceeded ''quota'')) :: (unit, unit) outcome option)
     = ([LOG_debug (ReddwarfError QuotaExceeded ''quota'')],
        FaultObject (Fault (new_exc (\<lambda>c. ''generic'') HTTPRequestEntityTooLarge (Some ''quota''))))"
    by blast
  from execute_action_status_of_error
    [of "OtherReddwarfError ''GuestError''" exception_map "\<lambda>c. ''generic''" "''guest''"] unreg
  have b: "execute_action (\<lambda>c. ''generic'') (model_exception_map (Some exception_map))
       (Some (Raise (ReddwarfError (OtherReddwarfError ''GuestError'') ''guest''))
          :: (unit, unit) outcome option)
     = ([LOG_debug (ReddwarfError (OtherReddwarfError ''GuestError'') ''guest'')],
        FaultObject (Fault (new_exc (\<lambda>c. ''generic'') HTTPBadRequest (Some ''guest''))))"
    by blast
  from a b show ?thesis by (simp add: new_exc_def)
qed

text \<open>
  Claim C10. With the controller's default exception table, business logic that raises
  \<open>Forbidden\<close> gets a fault that wraps \<open>HTTPUnauthorized\<close>: its status code is 401 and its
  fault name is \<open>unauthorized\<close>, not 403 and not \<open>forbidden\<close>.
\<close>

theorem forbidden_gives_unauthorized_fault:
  "execute_action expl controller_model_exception_map
       (Some (Raise (ReddwarfError Forbidden msg)))
     = ([LOG_debug (ReddwarfError Forbidden msg)],
        FaultObject (Fault (new_exc expl HTTPUnauthorized (Some msg))))
   \<and> status_int (new_exc expl HTTPUnauthorized (Some msg)) = 401
   \<and> get_error_name (new_exc expl HTTPUnauthorized (Some msg)) = ''unauthorized''
   \<and> status_int (new_exc expl HTTPUnauthorized (Some msg)) \<noteq> 403
   \<and> get_error_name (new_exc expl HTTPUnauthorized (Some msg)) \<noteq> ''forbidden''
   \<and> fst (hd (fault_data (new_exc expl HTTPUnauthorized (Some msg)))) = ''unauthorized''"
  by (simp add: execute_action_def controller_map_apply new_exc_def get_error_name_def
      named_exceptions_def fault_data_def)

section \<open>Properties of content negotiation\<close>

lemma rsplit1_last_sep:
  assumes "c \<notin> set ext"
  shows "rsplit1 (p @ c # ext) c = [p, ext]"
proof -
  have tw: "takeWhile (\<lambda>x. x \<noteq> c) (rev ext @ c # rev p) = rev ext"
    using assms by (auto simp add: takeWhile_tail)
  have dw: "dropWhile (\<lambda>x. x \<noteq> c) (rev ext @ c # rev p) = c # rev p"
    using assms by (auto simp add: dropWhile_append3)
  show ?thesis
    by (simp add: rsplit1_def tw dw)
qed

lemma negotiate_default:
  "(case bm h (map fst ctypes) of
      None \<Rightarrow> ''application/json''
    | Some m \<Rightarrow> (case map_of ctypes m of None \<Rightarrow> ''application/json'' | Some t \<Rightarrow> t))
   = (case bm h [''application/vnd.openstack.reddwarf+json'',
                 ''application/vnd.openstack.reddwarf+xml'',
                 ''application/json'', ''application/xml''] of
        None \<Rightarrow> ''application/json''
      | Some m \<Rightarrow>
          if m = ''application/vnd.openstack.reddwarf+xml'' \<or> m = ''application/xml''
          then ''application/xml'' else ''application/json'')"
  by (simp add: ctypes_def split: option.splits)

lemma best_match_content_type_range:
  "best_match_content_type bm req = ''application/json'' \<or>
   best_match_content_type bm req = ''application/xml''"
  unfolding best_match_content_type_def Let_def negotiate_default
  by (auto split: option.splits)

text \<open>
  Claim C3. A path that ends in \<open>.json\<close> or \<open>.xml\<close> negotiates \<open>application/json\<close> or
  \<open>application/xml\<close>, whatever the Accept header and whatever best-match would choose. A
  path with no dot, or whose text after the last dot is neither \<open>json\<close> nor \<open>xml\<close>,
  negotiates by best match of the Accept header over the four candidate types: the two
  XML candidates give \<open>application/xml\<close>, anything else, also no match, gives
  \<open>application/json\<close>.
\<close>

theorem best_match_content_type_extension_first:
  "((ext = ''json'' \<or> ext = ''xml'') \<and> path req = p @ ''.'' @ ext \<longrightarrow>
      best_match_content_type bm req = ''application/'' @ ext)
   \<and> (CHR ''.'' \<notin> set (path req) \<or>
        (path req = p @ ''.'' @ ext \<and> CHR ''.'' \<notin> set ext \<and> ext \<noteq> ''json'' \<and> ext \<noteq> ''xml'')
      \<longrightarrow>
      best_match_content_type bm req =
        (case bm (get_header req ''Accept'')
                [''application/vnd.openstack.reddwarf+json'',
                 ''application/vnd.openstack.reddwarf+xml'',
                 ''application/json'', ''application/xml''] of
           None \<Rightarrow> ''application/json''
         | Some m \<Rightarrow>
             if m = ''application/vnd.openstack.reddwarf+xml'' \<or> m = ''application/xml''
             then ''application/xml'' else ''application/json''))"
proof (intro conjI impI)
  assume a: "(ext = ''json'' \<or> ext = ''xml'') \<and> path req = p @ ''.'' @ ext"
  then have "CHR ''.'' \<notin> set ext" by auto
  from rsplit1_last_sep [OF this, of p] a
  show "best_match_content_type bm req = ''application/'' @ ext"
    by (auto simp add: best_match_content_type_def)
next
  assume "CHR ''.'' \<notin> set (path req) \<or>
        (path req = p @ ''.'' @ ext \<and> CHR ''.'' \<notin> set ext \<and> ext \<noteq> ''json'' \<and> ext \<noteq> ''xml'')"
  then consider (nodot) "CHR ''.'' \<notin> set (path req)"
    | (other) "path req = p @ ''.'' @ ext" "CHR ''.'' \<notin> set ext" "ext \<noteq> ''json''" "ext \<noteq> ''xml''"
    by blast
  then have cond: "(length (rsplit1 (path req) (CHR ''.'')) > 1 \<and>
      rsplit1 (path req) (CHR ''.'') ! 1 \<in> set [''json'', ''xml'']) = False"
  proof cases
    case nodot
    then show ?thesis by (simp add: rsplit1_def)
  next
    case other
    from rsplit1_last_sep [OF other(2), of p] other(1,3,4)
    show ?thesis by simp
  qed
  then show "best_match_content_type bm req =
        (case bm (get_header req ''Accept'')
                [''application/vnd.openstack.reddwarf+json'',
                 ''application/vnd.openstack.reddwarf+xml'',
                 ''application/json'', ''application/xml''] of
           None \<Rightarrow> ''application/json''
         | Some m \<Rightarrow>
             if m = ''application/vnd.openstack.reddwarf+xml'' \<or> m = ''application/xml''
             then ''application/xml'' else ''application/json'')"
    unfolding best_match_content_type_def Let_def negotiate_default cond by simp
qed

theorem best_match_content_type_extension_first_witness:
  "best_match_content_type (\<lambda>h offers. Some ''application/json'')
      \<lparr>path = ''/v1/instances.xml'', headers = [''accept'' \<mapsto> ''application/json''],
       params = Map.empty\<rparr> = ''application/xml''
   \<and> best_match_content_type (\<lambda>h offers. h)
      \<lparr>path = ''/v1.0/instances'', headers = [''accept'' \<mapsto> ''application/xml''],
       params = Map.empty\<rparr> = ''application/xml''
   \<and> best_match_content_type (\<lambda>h offers. None)
      \<lparr>path = ''/instances'', headers = Map.empty, params = Map.empty\<rparr> = ''application/json''"
proof -
  let ?r1 = "\<lparr>path = ''/v1/instances.xml'', headers = [''accept'' \<mapsto> ''application/json''],
       params = Map.empty\<rparr>"
  let ?r2 = "\<lparr>path = ''/v1.0/instances'', headers = [''accept'' \<mapsto> ''application/xml''],
       params = Map.empty\<rparr>"
  let ?r3 = "\<lparr>path = ''/instances'', headers = Map.empty, params = Map.empty\<rparr>"
  have a: "best_match_content_type (\<lambda>h offers. Some ''application/json'') ?r1 = ''application/xml''"
    using best_match_content_type_extension_first
      [of "''xml''" ?r1 "''/v1/instances''" "\<lambda>h offers. Some ''application/json''"]
    by simp
  have b: "best_match_content_type (\<lambda>h offers. h) ?r2 = ''application/xml''"
    using best_match_content_type_extension_first
      [of "''0/instances''" ?r2 "''/v1''" "\<lambda>h offers. h"]
    by (simp add: get_header_def lower_def lower_char_def)
  have c: "best_match_content_type (\<lambda>h offers. None) ?r3 = ''application/json''"
    using best_match_content_type_extension_first
      [of "''''" ?r3 "''''" "\<lambda>h offers. None"]
    by simp
  from a b c show ?thesis by blast
qed

section \<open>Properties of version routing\<close>













section \<open>Properties of faults and serialization\<close>

text \<open>
  Claim C5. The document a fault serializes has one top-level key, the fault name. Under
  it, \<open>code\<close> is the wrapped error's status and \<open>message\<close> is the error's detail when it
  has one (\<open>detail\<close> is neither \<open>None\<close> nor empty), otherwise its generic explanation.
  Every call of the fault hands exactly this document to the XML or the JSON serializer.
\<close>

theorem fault_document_shape:
  "fault_data e =
     [(get_error_name e,
       [(''code'', IntField (status_int e)),
        (''message'',
         StrField (case detail e of
                     None \<Rightarrow> explanation e
                   | Some d \<Rightarrow> if d = [] then explanation e else d))])]
   \<and> length (fault_data e) = 1
   \<and> map fst (snd (hd (fault_data e))) = [''code'', ''message'']
   \<and> (fault_call bm xml_serialize json_serialize (Fault e) req =
         Inr \<lparr>fault_exc = e,
              fault_body = xml_serialize [(''attributes'', [(get_error_name e, ''code'')])]
                             (fault_data e),
              fault_content_type = ''application/xml''\<rparr>
       \<or> fault_call bm xml_serialize json_serialize (Fault e) req =
         Inr \<lparr>fault_exc = e, fault_body = json_serialize (fault_data e),
              fault_content_type = ''application/json''\<rparr>)"
proof -
  have fd: "fault_data e =
     [(get_error_name e,
       [(''code'', IntField (status_int e)),
        (''message'',
         StrField (case detail e of
                     None \<Rightarrow> explanation e
                   | Some d \<Rightarrow> if d = [] then explanation e else d))])]"
    by (simp add: fault_data_def truthy_def split: option.splits)
  have call: "fault_call bm xml_serialize json_serialize (Fault e) req =
         Inr \<lparr>fault_exc = e,
              fault_body = xml_serialize [(''attributes'', [(get_error_name e, ''code'')])]
                             (fault_data e),
              fault_content_type = ''application/xml''\<rparr>
       \<or> fault_call bm xml_serialize json_serialize (Fault e) req =
         Inr \<lparr>fault_exc = e, fault_body = json_serialize (fault_data e),
              fault_content_type = ''application/json''\<rparr>"
    using best_match_content_type_range [of bm req]
    by (auto simp add: fault_call_def Let_def)
  from fd call show ?thesis by simp
qed

text \<open>
  Claim C6. When the inherited serialization raises and the action result is not a
  webob response, \<open>serialize_response\<close> logs an error and raises the same exception to
  its caller. Only when the action result is a webob response does the exception end
  there: nothing is logged and the call returns (\<open>None\<close>). When serialization does not
  raise, its response is returned.
\<close>

theorem serialize_response_raises_again:
  "(\<not> is_webob_response \<longrightarrow>
      serialize_response (Inl ex :: py_exception + 'r) is_webob_response
        = ([LOG_error ex], Inl ex))
   \<and> (is_webob_response \<longrightarrow>
        serialize_response (Inl ex :: py_exception + 'r) is_webob_response = ([], Inr None))
   \<and> serialize_response (Inr (response :: 'r)) is_webob_response
        = ([], Inr (Some response))"
  by (simp add: serialize_response_def)

theorem serialize_response_raises_again_witness:
  "serialize_response (Inl (OtherException ''Missing root key in dict'') :: py_exception + string)
      False
     = ([LOG_error (OtherException ''Missing root key in dict'')],
        Inl (OtherException ''Missing root key in dict''))
   \<and> serialize_response (Inl (OtherException ''not a dict'') :: py_exception + string) True
     = ([], Inr None)"
  using serialize_response_raises_again
    [of False "OtherException ''Missing root key in dict''" "''body''"]
    serialize_response_raises_again [of True "OtherException ''not a dict''" "''body''"]
  by simp

text \<open>
  Claim C9. For a result whose payload has an XML view, \<open>application/xml\<close> hands that
  view to the body serializer; for a payload with a JSON view, \<open>application/json\<close> hands
  that view; for a payload with neither view, the payload itself is handed on, whatever
  the content type.
\<close>

theorem serialize_body_projection:
  "serialize_body super_serialize_body response
       (IsResult (Result (Payload v (Some x) jo) st)) ''application/xml''
     = super_serialize_body response x ''application/xml''
   \<and> serialize_body super_serialize_body response
       (IsResult (Result (Payload v xo (Some j)) st)) ''application/json''
     = super_serialize_body response j ''application/json''
   \<and> serialize_body super_serialize_body response
       (IsResult (Result (Payload v None None) st)) ct
     = super_serialize_body response v ct"
  by (simp add: serialize_body_def Result_data_def Result_def)

section \<open>Properties of the context middleware\<close>

lemma roles_admin_iff:
  "roles_admin admin_roles roles \<longleftrightarrow> (\<exists>role \<in> set roles. lower role \<in> set admin_roles)"
  by (induction roles) auto

lemma case_insensitive_admin_iff:
  "case_insensitive_admin admin_roles x_role \<longleftrightarrow>
     (\<exists>role \<in> set (split x_role '',''). \<exists>a \<in> set admin_roles. lower a = lower role)"
  by (simp add: case_insensitive_admin_def list_ex_iff)

text \<open>
  Claim C7. The admin flag is to be true exactly when some element of the comma-separated
  \<open>X-Role\<close> list matches a configured admin role without regard to case. The code
  lower-cases the role of the header (\<open>role.lower()\<close>) and looks it up among the
  configured roles as they are, so it misses every configured role that has an upper-case
  letter. At the configured admin role \<open>Admin\<close> and a request with a token whose
  \<open>X-Role\<close> is \<open>Admin\<close>, the role matches, with or without regard to case, and the
  context that \<open>process_request\<close> builds has the admin flag false.
\<close>

theorem admin_flag_failing_input:
  "process_request [''Admin'']
      \<lparr>path = ''/instances'',
       headers = [''x-auth-token'' \<mapsto> ''token'', ''x-role'' \<mapsto> ''Admin''],
       params = Map.empty\<rparr>
     = Inr \<lparr>auth_tok = ''token'', tenant = None, user = None, is_admin = False,
            limit = None, marker = None\<rparr>
   \<and> case_insensitive_admin [''Admin''] ''Admin''"
  by (simp add: process_request_def get_header_def lower_def lower_char_def split_def
      extract_limits_def case_insensitive_admin_def)

text \<open>
  What \<open>process_request\<close> computes, for every request. Without \<open>X-Auth-Token\<close> it
  fails with a \<open>KeyError\<close>, and the middleware's call ends with it whatever the wrapped
  application is. With the header, the context carries the token, and the admin flag is
  the test of the code: the lower-cased form of some element of the \<open>X-Role\<close> list is
  among the configured roles. That test is the match without regard to case only when no
  configured role has an upper-case letter.
\<close>

lemma process_request_admin_flag:
  "(get_header req ''X-Auth-Token'' = None \<longrightarrow>
      process_request admin_roles req = Inl (KeyError ''X-Auth-Token'') \<and>
      context_middleware_call admin_roles application req = Inl (KeyError ''X-Auth-Token''))
   \<and> (get_header req ''X-Auth-Token'' = Some tok \<longrightarrow>
        (\<exists>ctx. process_request admin_roles req = Inr ctx \<and>
           context_middleware_call admin_roles application req = Inr (application ctx req) \<and>
           auth_tok ctx = tok \<and>
           (is_admin ctx \<longleftrightarrow>
              (\<exists>role \<in> set (split (case get_header req ''X-Role'' of None \<Rightarrow> [] | Some r \<Rightarrow> r) '','').
                 lower role \<in> set admin_roles)) \<and>
           ((\<forall>a \<in> set admin_roles. lower a = a) \<longrightarrow>
              (is_admin ctx \<longleftrightarrow>
                 case_insensitive_admin admin_roles
                   (case get_header req ''X-Role'' of None \<Rightarrow> [] | Some r \<Rightarrow> r)))))"
proof (intro conjI impI)
  assume "get_header req ''X-Auth-Token'' = None"
  then show "process_request admin_roles req = Inl (KeyError ''X-Auth-Token'')"
    and "context_middleware_call admin_roles application req = Inl (KeyError ''X-Auth-Token'')"
    by (simp_all add: context_middleware_call_def process_request_def)
next
  let ?x = "case get_header req ''X-Role'' of None \<Rightarrow> [] | Some r \<Rightarrow> r"
  let ?ctx = "\<lparr>auth_tok = tok, tenant = get_header req ''X-Tenant-Id'',
      user = get_header req ''X-User'', is_admin = roles_admin admin_roles (split ?x '',''),
      limit = extract_limits (params req) ''limit'',
      marker = extract_limits (params req) ''marker''\<rparr>"
  assume tok: "get_header req ''X-Auth-Token'' = Some tok"
  then have pr: "process_request admin_roles req = Inr ?ctx"
    by (simp add: process_request_def Let_def)
  have call: "context_middleware_call admin_roles application req = Inr (application ?ctx req)"
    by (simp add: context_middleware_call_def pr)
  have adm: "is_admin ?ctx \<longleftrightarrow> (\<exists>role \<in> set (split ?x '',''). lower role \<in> set admin_roles)"
    by (simp add: roles_admin_iff)
  have low: "(\<forall>a \<in> set admin_roles. lower a = a) \<longrightarrow>
      (is_admin ?ctx \<longleftrightarrow> case_insensitive_admin admin_roles ?x)"
    unfolding adm case_insensitive_admin_iff by metis
  have "auth_tok ?ctx = tok" by simp
  with pr call adm low
  show "\<exists>ctx. process_request admin_roles req = Inr ctx \<and>
           context_middleware_call admin_roles application req = Inr (application ctx req) \<and>
           auth_tok ctx = tok \<and>
           (is_admin ctx \<longleftrightarrow>
              (\<exists>role \<in> set (split ?x '',''). lower role \<in> set admin_roles)) \<and>
           ((\<forall>a \<in> set admin_roles. lower a = a) \<longrightarrow>
              (is_admin ctx \<longleftrightarrow> case_insensitive_admin admin_roles ?x))"
    by blast
qed

lemma process_request_admin_flag_example:
  "context_middleware_call [''admin''] (\<lambda>ctx req. is_admin ctx)
      \<lparr>path = ''/instances'', headers = [''x-role'' \<mapsto> ''admin''], params = Map.empty\<rparr>
     = Inl (KeyError ''X-Auth-Token'')
   \<and> context_middleware_call [''admin''] (\<lambda>ctx req. is_admin ctx)
      \<lparr>path = ''/instances'',
       headers = [''x-auth-token'' \<mapsto> ''token'', ''x-role'' \<mapsto> ''user,Admin''],
       params = Map.empty\<rparr>
     = Inr True"
proof -
  let ?app = "\<lambda>(ctx :: reddwarf_context) (req :: request). is_admin ctx"
  let ?r1 = "\<lparr>path = ''/instances'', headers = [''x-role'' \<mapsto> ''admin''], params = Map.empty\<rparr>"
  let ?r2 = "\<lparr>path = ''/instances'',
       headers = [''x-auth-token'' \<mapsto> ''token'', ''x-role'' \<mapsto> ''user,Admin''],
       params = Map.empty\<rparr>"
  have h1: "get_header ?r1 ''X-Auth-Token'' = None"
    by (simp add: get_header_def lower_def lower_char_def)
  have h2: "get_header ?r2 ''X-Auth-Token'' = Some ''token''"
    by (simp add: get_header_def lower_def lower_char_def)
  have x2: "get_header ?r2 ''X-Role'' = Some ''user,Admin''"
    by (simp add: get_header_def lower_def lower_char_def)
  have sp: "split ''user,Admin'' '','' = [''user'', ''Admin'']"
    by (simp add: split_def)
  have lo: "lower ''user'' = ''user''" "lower ''Admin'' = ''admin''"
    by (simp_all add: lower_def lower_char_def)
  from process_request_admin_flag [of ?r1 "[''admin'']" ?app "''token''"] h1
  have a: "context_middleware_call [''admin''] ?app ?r1 = Inl (KeyError ''X-Auth-Token'')"
    by blast
  from process_request_admin_flag [of ?r2 "[''admin'']" ?app "''token''"] h2
  obtain ctx where ctx: "context_middleware_call [''admin''] ?app ?r2 = Inr (?app ctx ?r2)"
    "is_admin ctx \<longleftrightarrow>
       (\<exists>role \<in> set (split (case get_header ?r2 ''X-Role'' of None \<Rightarrow> [] | Some r \<Rightarrow> r) '','').
          lower role \<in> set [''admin''])"
    by blast
  from ctx(2) have "is_admin ctx"
    unfolding x2 option.case sp by (simp add: lo)
  with ctx(1) have b: "context_middleware_call [''admin''] ?app ?r2 = Inr True"
    by simp
  from a b show ?thesis by blast
qed

section \<open>Properties of the fault wrapper\<close>

lemma plain_text_header_iff:
  "plain_text_header hs \<longleftrightarrow> (''Content-Type'', ''text/plain; charset=UTF-8'') \<in> set hs"
  by (induction hs) (auto split: if_splits)

text \<open>
  Claim C8, as stated, fails at status 403: a downstream 403 response with the generic
  plain-text content type becomes a fault of the class \<open>HTTPUnauthorized\<close>, whose status
  is 401, and not a fault of the class of status 403, \<open>HTTPForbidden\<close>.
\<close>

theorem fault_wrapper_forbidden_counterexample:
  "fault_wrapper_call (\<lambda>c. ''generic'')
      (Inr \<lparr>resp_status_int = 403,
            headerlist = [(''Content-Type'', ''text/plain; charset=UTF-8'')],
            resp_body = ''403 Forbidden''\<rparr>)
     = ([], FaultOut (Fault \<lparr>cls = HTTPUnauthorized, status_int = 401, detail = None,
                              explanation = ''generic''\<rparr>))
   \<and> class_code HTTPForbidden = 403
   \<and> HTTPUnauthorized \<noteq> HTTPForbidden
   \<and> class_code HTTPUnauthorized \<noteq> 403"
  by (simp add: fault_wrapper_call_def resp_codes_def code_wrapper_def new_exc_def)

text \<open>
  Claim C8, amended. A downstream response whose status is 400, 401, 403 or 404 and whose
  header list has \<open>Content-Type: text/plain; charset=UTF-8\<close> becomes a fault of the class
  that \<open>code_wrapper\<close> gives its status: \<open>HTTPBadRequest\<close> for 400, \<open>HTTPUnauthorized\<close>
  for 401 and for 403, \<open>HTTPNotFound\<close> for 404. Every other response is returned as it
  is. An exception of the downstream chain is logged and becomes a fault of status 500.
\<close>

theorem fault_wrapper_call_cases:
  "(resp_status_int resp \<in> {400, 401, 403, 404} \<and>
    (''Content-Type'', ''text/plain; charset=UTF-8'') \<in> set (headerlist resp) \<longrightarrow>
      fault_wrapper_call expl (Inr resp)
        = ([], FaultOut (Fault (new_exc expl
             (if resp_status_int resp = 400 then HTTPBadRequest
              else if resp_status_int resp = 404 then HTTPNotFound
              else HTTPUnauthorized) None))))
   \<and> (\<not> (resp_status_int resp \<in> {400, 401, 403, 404} \<and>
          (''Content-Type'', ''text/plain; charset=UTF-8'') \<in> set (headerlist resp)) \<longrightarrow>
        fault_wrapper_call expl (Inr resp) = ([], ResponseOut resp))
   \<and> fault_wrapper_call expl (Inl ex)
        = ([LOG_exception ex], FaultOut (Fault (new_exc expl HTTPInternalServerError None)))
   \<and> status_int (new_exc expl HTTPInternalServerError None) = 500"
  by (auto simp add: fault_wrapper_call_def resp_codes_def code_wrapper_def new_exc_def
      plain_text_header_iff)

theorem fault_wrapper_call_cases_witness:
  "fault_wrapper_call (\<lambda>c. ''generic'')
      (Inr \<lparr>resp_status_int = 404,
            headerlist = [(''Content-Length'', ''0''),
                          (''Content-Type'', ''text/plain; charset=UTF-8'')],
            resp_body = ''404 Not Found''\<rparr>)
     = ([], FaultOut (Fault \<lparr>cls = HTTPNotFound, status_int = 404, detail = None,
                              explanation = ''generic''\<rparr>))
   \<and> fault_wrapper_call (\<lambda>c. ''generic'')
      (Inr \<lparr>resp_status_int = 404,
            headerlist = [(''Content-Type'', ''application/json'')],
            resp_body = ''{}''\<rparr>)
     = ([], ResponseOut \<lparr>resp_status_int = 404,
            headerlist = [(''Content-Type'', ''application/json'')],
            resp_body = ''{}''\<rparr>)"
proof -
  let ?a = "\<lparr>resp_status_int = 404,
            headerlist = [(''Content-Length'', ''0''),
                          (''Content-Type'', ''text/plain; charset=UTF-8'')],
            resp_body = ''404 Not Found''\<rparr>"
  let ?b = "\<lparr>resp_status_int = 404,
            headerlist = [(''Content-Type'', ''application/json'')],
            resp_body = ''{}''\<rparr>"
  have a: "fault_wrapper_call (\<lambda>c. ''generic'') (Inr ?a)
     = ([], FaultOut (Fault (new_exc (\<lambda>c. ''generic'') HTTPNotFound None)))"
    using fault_wrapper_call_cases [of ?a "\<lambda>c. ''generic''" "OtherException ''e''"]
    by simp
  have b: "fault_wrapper_call (\<lambda>c. ''generic'') (Inr ?b) = ([], ResponseOut ?b)"
    using fault_wrapper_call_cases [of ?b "\<lambda>c. ''generic''" "OtherException ''e''"]
    by simp
  from a b show ?thesis by (simp add: new_exc_def)
qed

section \<open>Properties of the XML serializer\<close>

lemma find_root_key_eq:
  "find_root_key keys has_links root_key =
     (let total = (case root_key of None \<Rightarrow> [] | Some r \<Rightarrow> [r])
                    @ filter (\<lambda>key. key \<noteq> ''links'') keys
      in if length total > 1 then None
         else Some (has_links \<or> ''links'' \<in> set keys,
                    case total of [] \<Rightarrow> None | x # xs \<Rightarrow> Some x))"
proof (induction keys arbitrary: has_links root_key)
  case Nil
  then show ?case by (simp split: option.splits)
next
  case (Cons key keys)
  show ?case
  proof (cases "key = ''links''")
    case True
    then show ?thesis by (simp add: Cons.IH Let_def)
  next
    case False
    then show ?thesis
      by (cases root_key) (auto simp add: Cons.IH Let_def split: list.splits)
  qed
qed

lemma find_root_key_start:
  "find_root_key (map fst d) False None =
     (if length (root_keys d) > 1 then None
      else Some (''links'' \<in> fst ` set d,
                 case root_keys d of [] \<Rightarrow> None | x # xs \<Rightarrow> Some x))"
  by (simp add: find_root_key_eq root_keys_def Let_def)

lemma map_of_links: "(''links'' \<in> fst ` set d) = (map_of d ''links'' \<noteq> None)"
  by (simp add: map_of_eq_None_iff)

lemma root_key_present:
  assumes "root_keys d = [k]"
  shows "\<exists>v. map_of d k = Some v"
proof -
  from assms have "k \<in> set (root_keys d)" by simp
  then have "k \<in> fst ` set d" by (auto simp: root_keys_def)
  then show ?thesis by (cases "map_of d k") (auto simp: map_of_eq_None_iff)
qed

lemma default_missing:
  "root_keys d = [] \<Longrightarrow>
     default_xml sg txs d = ([LOG_error (MissingRootKey d)], Inl (RuntimeError (MissingRootKey d)))"
  by (simp add: default_xml_def find_root_key_start)

lemma default_multiple:
  "length (root_keys d) > 1 \<Longrightarrow>
     default_xml sg txs d =
       ([LOG_error (MultipleRootKeys d)], Inl (RuntimeError (MultipleRootKeys d)))"
  by (simp add: default_xml_def find_root_key_start)

lemma default_single:
  assumes "root_keys d = [k]" "map_of d k = Some v"
  shows "default_xml sg txs d =
    ([], case map_of d ''links'' of
           None \<Rightarrow> Inr (txs (to_xml_node sg k v))
         | Some l \<Rightarrow>
             (case appendChild (to_xml_node sg k v) (to_xml_node sg ''links'' l) of
                Inl e \<Rightarrow> Inl e
              | Inr n \<Rightarrow> Inr (txs n)))"
  using assms
  by (auto simp add: default_xml_def find_root_key_start getitem_def map_of_links
      split: option.splits)

lemma to_xml_node_element:
  assumes "\<forall>x. v \<noteq> ToXml x"
  shows "\<exists>a cs. to_xml_node sg k v = Element k a cs"
  using assms by (cases v) auto

text \<open>
  Claim C1, as stated, fails: the one root key does not name the root element when its
  value has \<open>to_xml\<close>. The mapping \<open>{instance: obj}\<close>, where \<open>obj.to_xml()\<close> is the
  element \<open>server\<close>, is rendered as \<open>server\<close>.
\<close>

theorem default_root_counterexample:
  "default_xml butlast (\<lambda>node. node) [(''instance'', ToXml (Element ''server'' [] []))]
     = ([], Inr (Element ''server'' [] []))
   \<and> root_keys [(''instance'', ToXml (Element ''server'' [] []))] = [''instance'']
   \<and> tagName (Element ''server'' [] []) \<noteq> ''instance''"
  by (simp add: default_xml_def getitem_def root_keys_def)

text \<open>
  Claim C1, amended. A mapping with no key other than \<open>links\<close>, or with more than one,
  makes \<open>default_xml\<close> log an error and raise \<open>RuntimeError\<close>; no body is produced. A
  mapping with exactly one key \<open>k\<close> other than \<open>links\<close> logs nothing, and its root node
  is the rendering of the value of \<open>k\<close>: an element named \<open>k\<close>, unless the value has
  \<open>to_xml\<close>, whose node is then the root. When \<open>links\<close> is present its rendering is
  appended to the root node, as the last child of a root element.
\<close>

theorem default_root_key:
  "(root_keys d = [] \<longrightarrow>
      default_xml sg txs d = ([LOG_error (MissingRootKey d)], Inl (RuntimeError (MissingRootKey d))))
   \<and> (length (root_keys d) > 1 \<longrightarrow>
        default_xml sg txs d =
          ([LOG_error (MultipleRootKeys d)], Inl (RuntimeError (MultipleRootKeys d))))
   \<and> (root_keys d = [k] \<longrightarrow>
        (\<exists>v. map_of d k = Some v \<and>
           default_xml sg txs d =
             ([], case map_of d ''links'' of
                    None \<Rightarrow> Inr (txs (to_xml_node sg k v))
                  | Some l \<Rightarrow>
                      (case appendChild (to_xml_node sg k v) (to_xml_node sg ''links'' l) of
                         Inl e \<Rightarrow> Inl e
                       | Inr n \<Rightarrow> Inr (txs n))) \<and>
           ((\<forall>x. v \<noteq> ToXml x) \<longrightarrow>
              (\<exists>a cs. to_xml_node sg k v = Element k a cs \<and>
                 (\<forall>c. appendChild (to_xml_node sg k v) c = Inr (Element k a (cs @ [c]))))) \<and>
           (\<forall>x. v = ToXml x \<longrightarrow> to_xml_node sg k v = x)))"
proof (intro conjI impI)
  assume "root_keys d = []"
  then show "default_xml sg txs d =
      ([LOG_error (MissingRootKey d)], Inl (RuntimeError (MissingRootKey d)))"
    by (rule default_missing)
next
  assume "length (root_keys d) > 1"
  then show "default_xml sg txs d =
      ([LOG_error (MultipleRootKeys d)], Inl (RuntimeError (MultipleRootKeys d)))"
    by (rule default_multiple)
next
  assume one: "root_keys d = [k]"
  from root_key_present [OF one] obtain v where v: "map_of d k = Some v" by blast
  have el: "(\<forall>x. v \<noteq> ToXml x) \<longrightarrow>
      (\<exists>a cs. to_xml_node sg k v = Element k a cs \<and>
         (\<forall>c. appendChild (to_xml_node sg k v) c = Inr (Element k a (cs @ [c]))))"
  proof
    assume "\<forall>x. v \<noteq> ToXml x"
    from to_xml_node_element [OF this, of sg k]
    obtain a cs where "to_xml_node sg k v = Element k a cs" by blast
    then show "\<exists>a cs. to_xml_node sg k v = Element k a cs \<and>
         (\<forall>c. appendChild (to_xml_node sg k v) c = Inr (Element k a (cs @ [c])))"
      by (simp add: appendChild_def)
  qed
  have tx: "\<forall>x. v = ToXml x \<longrightarrow> to_xml_node sg k v = x" by simp
  from v default_single [OF one v, of sg txs] el tx
  show "\<exists>v. map_of d k = Some v \<and>
           default_xml sg txs d =
             ([], case map_of d ''links'' of
                    None \<Rightarrow> Inr (txs (to_xml_node sg k v))
                  | Some l \<Rightarrow>
                      (case appendChild (to_xml_node sg k v) (to_xml_node sg ''links'' l) of
                         Inl e \<Rightarrow> Inl e
                       | Inr n \<Rightarrow> Inr (txs n))) \<and>
           ((\<forall>x. v \<noteq> ToXml x) \<longrightarrow>
              (\<exists>a cs. to_xml_node sg k v = Element k a cs \<and>
                 (\<forall>c. appendChild (to_xml_node sg k v) c = Inr (Element k a (cs @ [c]))))) \<and>
           (\<forall>x. v = ToXml x \<longrightarrow> to_xml_node sg k v = x)"
    by blast
qed

theorem default_root_key_witness:
  "default_xml butlast (\<lambda>node. node)
      [(''instance'', PyDict [(''id'', Atom ''7''), (''volume'', PyDict [(''size'', Atom ''2'')])]),
       (''links'', PyList [PyDict [(''href'', Atom ''http://x/7''), (''rel'', Atom ''self'')]])]
     = ([], Inr (Element ''instance'' [(''id'', ''7'')]
                   [Element ''volume'' [(''size'', ''2'')] [],
                    Element ''links'' []
                      [Element ''link'' [(''href'', ''http://x/7''), (''rel'', ''self'')] []]]))
   \<and> default_xml butlast (\<lambda>node. node) [(''links'', PyList [])]
     = ([LOG_error (MissingRootKey [(''links'', PyList [])])],
        Inl (RuntimeError (MissingRootKey [(''links'', PyList [])])))
   \<and> default_xml butlast (\<lambda>node. node) [(''instance'', Atom ''a''), (''flavor'', Atom ''b'')]
     = ([LOG_error (MultipleRootKeys [(''instance'', Atom ''a''), (''flavor'', Atom ''b'')])],
        Inl (RuntimeError
               (MultipleRootKeys [(''instance'', Atom ''a''), (''flavor'', Atom ''b'')])))"
proof -
  let ?d1 = "[(''instance'', PyDict [(''id'', Atom ''7''), (''volume'', PyDict [(''size'', Atom ''2'')])]),
       (''links'', PyList [PyDict [(''href'', Atom ''http://x/7''), (''rel'', Atom ''self'')]])]"
  let ?d2 = "[(''links'', PyList [])]"
  let ?d3 = "[(''instance'', Atom ''a''), (''flavor'', Atom ''b'')]"
  have a: "default_xml butlast (\<lambda>node. node) ?d1
     = ([], Inr (Element ''instance'' [(''id'', ''7'')]
                   [Element ''volume'' [(''size'', ''2'')] [],
                    Element ''links'' []
                      [Element ''link'' [(''href'', ''http://x/7''), (''rel'', ''self'')] []]]))"
    using default_root_key [of ?d1 butlast "\<lambda>node. node" "''instance''"]
    by (simp add: root_keys_def appendChild_def attribute_of_def attrs_of_def
        CUSTOM_SERIALIZER_METADATA_def List.map_filter_def)
  have b: "default_xml butlast (\<lambda>node. node) ?d2
     = ([LOG_error (MissingRootKey ?d2)], Inl (RuntimeError (MissingRootKey ?d2)))"
    using default_root_key [of ?d2 butlast "\<lambda>node. node" "''instance''"]
    by (simp add: root_keys_def)
  have c: "default_xml butlast (\<lambda>node. node) ?d3
     = ([LOG_error (MultipleRootKeys ?d3)], Inl (RuntimeError (MultipleRootKeys ?d3)))"
    using default_root_key [of ?d3 butlast "\<lambda>node. node" "''instance''"]
    by (simp add: root_keys_def)
  from a b c show ?thesis by blast
qed

end
